theory Spec2Isabelle
  imports Main "HOL-Library.Sublist"
begin

section \<open>Data model\<close>

text \<open>
  The repository holds two revisions of each of its two components. The recursive node
  component is \<^verbatim>\<open>src/unnamed/part_000\<close> (array-only \<^verbatim>\<open>modelValue\<close>, no
  \<^verbatim>\<open>select\<close> event) and \<^verbatim>\<open>src/unnamed/part_001\<close> (the revision that
  \<^verbatim>\<open>TreeSelect.vue\<close> mounts: it has the \<^verbatim>\<open>multiple\<close> prop and emits
  \<^verbatim>\<open>select\<close>). The controller is \<^verbatim>\<open>src/src/components/TreeSelect/TreeSelect.vue\<close>
  and \<^verbatim>\<open>src/unnamed/part_002\<close>. A function that is literally the same in both
  revisions is defined once under the source's name; a function that differs carries the
  suffix \<open>_000\<close>, \<open>_001\<close>, \<open>_002\<close> or \<open>_vue\<close> of the file it is translated from.
\<close>

text \<open>
  An id is a JavaScript string or number (\<^verbatim>\<open>id: any\<close>; the prop types of
  \<^verbatim>\<open>modelValue\<close> are \<^verbatim>\<open>Array, String, Number\<close>). Numbers are the
  integer-valued ones whose \<^verbatim>\<open>String(n)\<close> is the plain decimal numeral. Strict
  equality \<^verbatim>\<open>===\<close> and \<^verbatim>\<open>Array.prototype.includes\<close> never identify a
  number with a string, which is the equality of this datatype.
\<close>

datatype ident = Num int | Str string

text \<open>
  \<^verbatim>\<open>interface TreeNode { id; label; children?; selectionMode? }\<close>. Every use of
  \<^verbatim>\<open>children\<close> in the sources is guarded (\<^verbatim>\<open>node.children && ...\<close>,
  \<^verbatim>\<open>if (node.children)\<close>, \<^verbatim>\<open>node.children ? ... : false\<close>) so that an absent
  array behaves as the empty one; both are the empty list here.
\<close>

datatype node =
  Node (nid: ident) (label: string) (children: "node list") (selectionMode: "string option")

text \<open>
  The \<^verbatim>\<open>modelValue\<close> prop of \<^verbatim>\<open>part_001\<close> and of both controllers:
  \<^verbatim>\<open>null\<close> (the default), \<^verbatim>\<open>undefined\<close> (what the single-mode
  \<^verbatim>\<open>handleNodeSelect\<close> emits for a payload without \<^verbatim>\<open>id\<close>), one id, or an
  array of ids.
\<close>

datatype model_value = MNull | MUndefined | Scalar ident | Arr "ident list"

definition isArray :: "model_value \<Rightarrow> bool" where
  "isArray v = (case v of Arr xs \<Rightarrow> True | _ \<Rightarrow> False)"

subsection \<open>JavaScript \<^verbatim>\<open>Set\<close>\<close>

text \<open>
  A \<^verbatim>\<open>Set\<close> is the list of its members in insertion order, which is the order
  \<^verbatim>\<open>Array.from\<close> reads back. \<^verbatim>\<open>add\<close> leaves the position of a member
  that is already present.
\<close>

definition set_add :: "'a \<Rightarrow> 'a list \<Rightarrow> 'a list" where
  "set_add x s = (if x \<in> set s then s else s @ [x])"

definition set_delete :: "'a \<Rightarrow> 'a list \<Rightarrow> 'a list" where
  "set_delete x s = filter (\<lambda>y. y \<noteq> x) s"

definition new_Set :: "'a list \<Rightarrow> 'a list" where
  "new_Set xs = fold set_add xs []"

subsection \<open>Strings\<close>

text \<open>
  A JavaScript string is modelled by the bytes of its UTF-8 encoding, so a character
  outside ASCII takes several \<^typ>\<open>char\<close>s; strings with unpaired surrogates are left
  out. The code only tests strings for emptiness and equality, concatenates them, and
  searches one in another, and on well-formed strings these agree with the same
  operations on the encodings: an encoded character can only be found at a character
  boundary. \<^verbatim>\<open>String.prototype.toLowerCase\<close> is a built-in of the language that
  follows the Unicode case mappings, including the context-sensitive ones; it is not
  defined here but is a parameter \<open>toLowerCase\<close> of the functions that call it.
\<close>

text \<open>\<^verbatim>\<open>String.prototype.includes\<close>: the argument occurs as a contiguous run.\<close>

fun str_includes :: "string \<Rightarrow> string \<Rightarrow> bool" where
  "str_includes [] t = (t = [])"
| "str_includes (c # s) t = (prefix t (c # s) \<or> str_includes s t)"

section \<open>The node component (\<^verbatim>\<open>part_000\<close>, \<^verbatim>\<open>part_001\<close>)\<close>

text \<open>
  The props of \<^verbatim>\<open>part_000\<close>; its \<^verbatim>\<open>modelValue\<close> is declared
  \<^verbatim>\<open>Array\<close> with default \<^verbatim>\<open>[]\<close>. \<^verbatim>\<open>part_001\<close> adds the
  \<^verbatim>\<open>multiple\<close> prop and widens \<^verbatim>\<open>modelValue\<close>.
\<close>

record 'v nodeProps =
  node :: node
  modelValue :: 'v
  searchTerm :: string
  parentMode :: string
  siblings :: "node list"

record treeNodeProps = "model_value nodeProps" +
  multiple :: bool

text \<open>Payloads of the two events a node emits.\<close>

record updatePayload =
  add :: "ident list"
  remove :: "ident list"

record selectPayload =
  pid :: "ident option"
  ids :: "ident list"
  isSelected :: bool

datatype event = Select selectPayload | Update updatePayload

text \<open>
  \<^verbatim>\<open>props.node.selectionMode || props.parentMode\<close>: an absent and an empty string
  are both falsy.
\<close>

definition currentMode_000 :: "('v, 'm) nodeProps_scheme \<Rightarrow> string" where
  "currentMode_000 p =
     (case selectionMode (node p) of
        Some s \<Rightarrow> if s \<noteq> [] then s else parentMode p
      | None \<Rightarrow> parentMode p)"

definition currentMode_001 :: "treeNodeProps \<Rightarrow> string" where
  "currentMode_001 p =
     (case selectionMode (node p) of
        Some s \<Rightarrow> if s \<noteq> [] then s
                  else if multiple p then ''multiple'' else parentMode p
      | None \<Rightarrow> if multiple p then ''multiple'' else parentMode p)"

definition hasChildren :: "node \<Rightarrow> bool" where
  "hasChildren n = (length (children n) > 0)"

text \<open>\<^verbatim>\<open>collectIds\<close> pushes onto the shared array \<^verbatim>\<open>ids\<close>, passed here as \<open>acc\<close>.\<close>

fun collectIds :: "node \<Rightarrow> ident list \<Rightarrow> ident list" where
  "collectIds (Node i l cs m) acc = fold collectIds cs (acc @ [i])"

definition allDescendantIds :: "node \<Rightarrow> ident list" where
  "allDescendantIds n = (if hasChildren n then fold collectIds (children n) [] else [])"

definition isChecked_000 :: "(ident list, 'm) nodeProps_scheme \<Rightarrow> bool" where
  "isChecked_000 p = (nid (node p) \<in> set (modelValue p))"

definition isChecked_001 :: "treeNodeProps \<Rightarrow> bool" where
  "isChecked_001 p =
     (case modelValue p of
        Arr xs \<Rightarrow> nid (node p) \<in> set xs
      | v \<Rightarrow> v = Scalar (nid (node p)))"

definition isIndeterminate_000 :: "(ident list, 'm) nodeProps_scheme \<Rightarrow> bool" where
  "isIndeterminate_000 p =
     (if currentMode_000 p \<noteq> ''multiple'' \<or> \<not> hasChildren (node p) \<or> isChecked_000 p
      then False
      else let selectedChildren =
                 filter (\<lambda>i. i \<in> set (modelValue p)) (allDescendantIds (node p))
           in length selectedChildren > 0)"

definition isIndeterminate_001 :: "treeNodeProps \<Rightarrow> bool" where
  "isIndeterminate_001 p =
     (if currentMode_001 p \<noteq> ''multiple'' \<or> \<not> hasChildren (node p) \<or> isChecked_001 p
      then False
      else let modelValueArray = (case modelValue p of Arr xs \<Rightarrow> xs | _ \<Rightarrow> []);
               selectedChildren =
                 filter (\<lambda>i. i \<in> set modelValueArray) (allDescendantIds (node p))
           in length selectedChildren > 0
              \<and> length selectedChildren < length (allDescendantIds (node p)))"

fun isChildVisible :: "(string \<Rightarrow> string) \<Rightarrow> string \<Rightarrow> node \<Rightarrow> bool" where
  "isChildVisible toLowerCase searchLower (Node i l cs m) =
     (str_includes (toLowerCase l) searchLower
      \<or> list_ex (isChildVisible toLowerCase searchLower) cs)"

definition isVisible :: "(string \<Rightarrow> string) \<Rightarrow> ('v, 'm) nodeProps_scheme \<Rightarrow> bool" where
  "isVisible toLowerCase p =
     (if searchTerm p = [] then True
      else let searchLower = toLowerCase (searchTerm p);
               isSelfVisible = str_includes (toLowerCase (label (node p))) searchLower
           in if isSelfVisible then True
              else hasChildren (node p)
                   \<and> list_ex (isChildVisible toLowerCase searchLower) (children (node p)))"

text \<open>
  \<^verbatim>\<open>handleSelect\<close> returns the events it emits, in order. \<^verbatim>\<open>toAdd\<close> and
  \<^verbatim>\<open>toRemove\<close> are the two \<^verbatim>\<open>Set\<close>s; the final \<^verbatim>\<open>update\<close> is emitted on
  every path.
\<close>

definition siblingsToRemove :: "node list \<Rightarrow> ident \<Rightarrow> ident list" where
  "siblingsToRemove sibs i =
     fold (\<lambda>sibling toRemove.
             if nid sibling \<noteq> i then set_add (nid sibling) toRemove else toRemove)
          sibs []"

definition handleSelect_000 :: "(ident list, 'm) nodeProps_scheme \<Rightarrow> event list" where
  "handleSelect_000 p =
     (if currentMode_000 p = ''single'' then
        (if \<not> isChecked_000 p then
           [Update \<lparr>add = set_add (nid (node p)) [],
                    remove = siblingsToRemove (siblings p) (nid (node p))\<rparr>]
         else [Update \<lparr>add = [], remove = []\<rparr>])
      else
        (let idsToUpdate = nid (node p) # allDescendantIds (node p);
             shouldSelect = \<not> isChecked_000 p
         in if shouldSelect
            then [Update \<lparr>add = fold set_add idsToUpdate [], remove = []\<rparr>]
            else [Update \<lparr>add = [], remove = fold set_add idsToUpdate []\<rparr>]))"

definition handleSelect_001 :: "treeNodeProps \<Rightarrow> event list" where
  "handleSelect_001 p =
     (if currentMode_001 p = ''single'' then
        (if \<not> isChecked_001 p then
           [Select \<lparr>pid = Some (nid (node p)), ids = [nid (node p)], isSelected = True\<rparr>,
            Update \<lparr>add = set_add (nid (node p)) [],
                    remove = siblingsToRemove (siblings p) (nid (node p))\<rparr>]
         else [Update \<lparr>add = [], remove = []\<rparr>])
      else
        (let idsToUpdate = nid (node p) # allDescendantIds (node p);
             shouldSelect = \<not> isChecked_001 p
         in if shouldSelect
            then [Select \<lparr>pid = None, ids = idsToUpdate, isSelected = shouldSelect\<rparr>,
                  Update \<lparr>add = fold set_add idsToUpdate [], remove = []\<rparr>]
            else [Select \<lparr>pid = None, ids = idsToUpdate, isSelected = shouldSelect\<rparr>,
                  Update \<lparr>add = [], remove = fold set_add idsToUpdate []\<rparr>]))"

text \<open>
  The props a node hands to each child in its template
  (\<^verbatim>\<open>:parentMode="currentMode" :siblings="node.children"\<close>, and in
  \<^verbatim>\<open>part_001\<close> \<^verbatim>\<open>:multiple="currentMode === 'multiple'"\<close>), and the props
  the controller hands to each root option (\<^verbatim>\<open>parentMode\<close> and
  \<^verbatim>\<open>siblings\<close> are not passed and take their defaults).
\<close>

definition childProps_000 :: "'v nodeProps \<Rightarrow> node \<Rightarrow> 'v nodeProps" where
  "childProps_000 p child =
     \<lparr>node = child, modelValue = modelValue p, searchTerm = searchTerm p,
      parentMode = currentMode_000 p, siblings = children (node p)\<rparr>"

definition childProps_001 :: "treeNodeProps \<Rightarrow> node \<Rightarrow> treeNodeProps" where
  "childProps_001 p child =
     \<lparr>node = child, modelValue = modelValue p, searchTerm = searchTerm p,
      parentMode = currentMode_001 p, siblings = children (node p),
      multiple = (currentMode_001 p = ''multiple'')\<rparr>"

definition rootProps :: "model_value \<Rightarrow> bool \<Rightarrow> string \<Rightarrow> node \<Rightarrow> treeNodeProps" where
  "rootProps mv mult search option =
     \<lparr>node = option, modelValue = mv, searchTerm = search,
      parentMode = ''multiple'', siblings = [], multiple = mult\<rparr>"

section \<open>The controller (\<^verbatim>\<open>TreeSelect.vue\<close>, \<^verbatim>\<open>part_002\<close>)\<close>

text \<open>
  What a handler of the controller does: it emits \<^verbatim>\<open>update:modelValue\<close> with a
  new value, and it may call \<^verbatim>\<open>closeDropdown\<close>. The \<^verbatim>\<open>console.log\<close>
  calls are left out.
\<close>

datatype effect = EmitModelValue model_value | CloseDropdown

definition hasSelection :: "bool \<Rightarrow> model_value \<Rightarrow> bool" where
  "hasSelection mult mv =
     (if mult then (case mv of Arr xs \<Rightarrow> length xs > 0 | _ \<Rightarrow> False)
      else mv \<noteq> MNull \<and> mv \<noteq> MUndefined)"

subsection \<open>The plain object \<^verbatim>\<open>flat\<close>\<close>

text \<open>
  \<^verbatim>\<open>optionsMap\<close> is an object literal \<^verbatim>\<open>{}\<close> indexed by ids. A property key
  is a string: a number is converted to its decimal numeral, an array (a mismatched
  \<^verbatim>\<open>modelValue\<close> in single mode) to its elements joined by commas.
\<close>

fun digitsOf :: "nat \<Rightarrow> string" where
  "digitsOf n =
     (if n < 10 then [''0123456789'' ! n]
      else digitsOf (n div 10) @ [''0123456789'' ! (n mod 10)])"

definition numberToString :: "int \<Rightarrow> string" where
  "numberToString n = (if n < 0 then CHR ''-'' # digitsOf (nat (- n)) else digitsOf (nat n))"

definition keyOf :: "ident \<Rightarrow> string" where
  "keyOf i = (case i of Num n \<Rightarrow> numberToString n | Str s \<Rightarrow> s)"

fun join :: "string \<Rightarrow> string list \<Rightarrow> string" where
  "join sep [] = []"
| "join sep [x] = x"
| "join sep (x # y # ys) = x @ sep @ join sep (y # ys)"

definition propertyKey :: "model_value \<Rightarrow> string" where
  "propertyKey mv =
     (case mv of
        MNull \<Rightarrow> ''null''
      | MUndefined \<Rightarrow> ''undefined''
      | Scalar i \<Rightarrow> keyOf i
      | Arr xs \<Rightarrow> join '','' (map keyOf xs))"

text \<open>
  A read of a key that is not an own property of \<^verbatim>\<open>flat\<close> goes to
  \<^verbatim>\<open>Object.prototype\<close>, whose members are functions (and, for
  \<^verbatim>\<open>__proto__\<close>, the prototype object itself): all truthy and none a string.
  A write creates an own property, except that assigning a string to
  \<^verbatim>\<open>__proto__\<close> runs the inherited setter, which ignores it.
\<close>

datatype jsval = JUndefined | JString string | JProtoMember string

definition objectPrototypeKeys :: "string list" where
  "objectPrototypeKeys =
     [''constructor'', ''__defineGetter__'', ''__defineSetter__'', ''hasOwnProperty'',
      ''__lookupGetter__'', ''__lookupSetter__'', ''isPrototypeOf'',
      ''propertyIsEnumerable'', ''toString'', ''valueOf'', ''__proto__'',
      ''toLocaleString'']"

definition setProp :: "(string \<rightharpoonup> string) \<Rightarrow> string \<Rightarrow> string \<Rightarrow> (string \<rightharpoonup> string)" where
  "setProp flat k v = (if k = ''__proto__'' then flat else flat(k \<mapsto> v))"

definition getProp :: "(string \<rightharpoonup> string) \<Rightarrow> string \<Rightarrow> jsval" where
  "getProp flat k =
     (case flat k of
        Some v \<Rightarrow> JString v
      | None \<Rightarrow> if k \<in> set objectPrototypeKeys then JProtoMember k else JUndefined)"

definition truthy :: "jsval \<Rightarrow> bool" where
  "truthy v = (case v of JUndefined \<Rightarrow> False | JString s \<Rightarrow> s \<noteq> [] | JProtoMember k \<Rightarrow> True)"

fun recurse :: "node \<Rightarrow> (string \<rightharpoonup> string) \<Rightarrow> (string \<rightharpoonup> string)" where
  "recurse (Node i l cs m) flat = fold recurse cs (setProp flat (keyOf i) l)"

definition optionsMap :: "node list \<Rightarrow> (string \<rightharpoonup> string)" where
  "optionsMap options = fold recurse options Map.empty"

subsection \<open>\<^verbatim>\<open>selectedLabel\<close>\<close>

text \<open>
  \<^verbatim>\<open>Array.prototype.join\<close> turns each element into text. The text of a member of
  \<^verbatim>\<open>Object.prototype\<close> is up to the engine and is the parameter \<open>nativeText\<close>.
\<close>

definition toText :: "(string \<Rightarrow> string) \<Rightarrow> jsval \<Rightarrow> string" where
  "toText nativeText v =
     (case v of JUndefined \<Rightarrow> [] | JString s \<Rightarrow> s | JProtoMember k \<Rightarrow> nativeText k)"

text \<open>
  In the multiple branch \<^verbatim>\<open>hasSelection\<close> has already established that
  \<^verbatim>\<open>modelValue\<close> is a non-empty array, so the other cases of the
  \<open>case\<close> are never reached.
\<close>

definition selectedLabel_vue ::
  "(string \<Rightarrow> string) \<Rightarrow> node list \<Rightarrow> bool \<Rightarrow> model_value \<Rightarrow> jsval" where
  "selectedLabel_vue nativeText options mult mv =
     (if \<not> hasSelection mult mv then JString []
      else if mult then
        (case mv of
           Arr xs \<Rightarrow>
             JString (join '', ''
               (map (toText nativeText)
                  (filter truthy (map (\<lambda>i. getProp (optionsMap options) (keyOf i)) xs))))
         | _ \<Rightarrow> JString [])
      else let v = getProp (optionsMap options) (propertyKey mv)
           in if truthy v then v else JString [])"

definition countSummary :: "nat \<Rightarrow> string" where
  "countSummary count =
     digitsOf count @ '' item'' @ (if count > 1 then ''s'' else []) @ '' selected''"

definition selectedLabel_002 :: "node list \<Rightarrow> bool \<Rightarrow> model_value \<Rightarrow> jsval" where
  "selectedLabel_002 options mult mv =
     (if \<not> hasSelection mult mv then JString []
      else if mult then
        (case mv of
           Arr xs \<Rightarrow> JString (countSummary (length xs))
         | _ \<Rightarrow> JString [])
      else let v = getProp (optionsMap options) (propertyKey mv)
           in if truthy v then v else JString [])"

subsection \<open>The handlers of the node events\<close>

text \<open>\<^verbatim>\<open>props.options.findIndex(option => option.id === a)\<close>, top level only.\<close>

fun findIndex :: "node list \<Rightarrow> ident \<Rightarrow> int" where
  "findIndex [] a = - 1"
| "findIndex (option # rest) a =
     (if nid option = a then 0
      else let r = findIndex rest a in if r = - 1 then - 1 else r + 1)"

text \<open>
  \<^verbatim>\<open>Array.prototype.sort\<close> with the comparator \<^verbatim>\<open>indexA - indexB\<close> is
  a stable sort on the index, as \<^const>\<open>sort_key\<close> is.
\<close>

definition sortedSelection :: "node list \<Rightarrow> ident list \<Rightarrow> ident list" where
  "sortedSelection options currentSelection = sort_key (findIndex options) currentSelection"

definition currentSelectionOf :: "model_value \<Rightarrow> ident list" where
  "currentSelectionOf mv = new_Set (case mv of Arr xs \<Rightarrow> xs | _ \<Rightarrow> [])"

definition handleNodeSelect_vue ::
  "node list \<Rightarrow> bool \<Rightarrow> model_value \<Rightarrow> selectPayload \<Rightarrow> effect list" where
  "handleNodeSelect_vue options mult mv payload =
     (if mult then
        (let currentSelection = currentSelectionOf mv;
             currentSelection' =
               (if isSelected payload then fold set_add (ids payload) currentSelection
                else fold set_delete (ids payload) currentSelection)
         in [EmitModelValue (Arr (sortedSelection options currentSelection'))])
      else [EmitModelValue (case pid payload of Some i \<Rightarrow> Scalar i | None \<Rightarrow> MUndefined),
            CloseDropdown])"

definition handleNodeSelect_002 :: "bool \<Rightarrow> model_value \<Rightarrow> selectPayload \<Rightarrow> effect list" where
  "handleNodeSelect_002 mult mv payload =
     (if mult then
        (let currentSelection = currentSelectionOf mv;
             currentSelection' =
               (if isSelected payload then fold set_add (ids payload) currentSelection
                else fold set_delete (ids payload) currentSelection)
         in [EmitModelValue (Arr currentSelection')])
      else [EmitModelValue (case pid payload of Some i \<Rightarrow> Scalar i | None \<Rightarrow> MUndefined),
            CloseDropdown])"

definition handleNodeUpdate_vue ::
  "node list \<Rightarrow> bool \<Rightarrow> model_value \<Rightarrow> updatePayload \<Rightarrow> effect list" where
  "handleNodeUpdate_vue options mult mv payload =
     (if mult then
        (let currentSelection = currentSelectionOf mv;
             added = fold (\<lambda>i s. if i \<notin> set s then set_add i s else s)
                       (add payload) currentSelection;
             removed = fold set_delete (remove payload) added
         in [EmitModelValue (Arr (sortedSelection options removed))])
      else
        (case add payload of
           a # _ \<Rightarrow> [EmitModelValue (Scalar a), CloseDropdown]
         | [] \<Rightarrow> if length (remove payload) > 0 then [EmitModelValue MNull] else []))"

definition handleNodeUpdate_002 :: "bool \<Rightarrow> model_value \<Rightarrow> updatePayload \<Rightarrow> effect list" where
  "handleNodeUpdate_002 mult mv payload =
     (if mult then
        (let currentSelection = currentSelectionOf mv;
             added = fold set_add (add payload) currentSelection;
             removed = fold set_delete (remove payload) added
         in [EmitModelValue (Arr removed)])
      else
        (case add payload of
           a # _ \<Rightarrow> [EmitModelValue (Scalar a), CloseDropdown]
         | [] \<Rightarrow> []))"

section \<open>Notions of the specification\<close>

text \<open>
  The nodes of a subtree in depth-first order, the descendants of a node (its subtree
  without the node itself) and the set \<open>descendantIds\<close> of the specification.
\<close>

fun subtree :: "node \<Rightarrow> node list" where
  "subtree (Node i l cs m) = Node i l cs m # concat (map subtree cs)"

definition descendants :: "node \<Rightarrow> node list" where
  "descendants n = concat (map subtree (children n))"

definition descendantIds :: "node \<Rightarrow> ident set" where
  "descendantIds n = nid ` set (descendants n)"

definition treeIds :: "node list \<Rightarrow> ident set" where
  "treeIds options = nid ` set (concat (map subtree options))"

text \<open>The \<^verbatim>\<open>update\<close> and the \<^verbatim>\<open>select\<close> payloads among emitted events.\<close>

fun updatesOf :: "event list \<Rightarrow> updatePayload list" where
  "updatesOf [] = []"
| "updatesOf (Update d # es) = d # updatesOf es"
| "updatesOf (Select s # es) = updatesOf es"

fun selectsOf :: "event list \<Rightarrow> selectPayload list" where
  "selectsOf [] = []"
| "selectsOf (Select s # es) = s # selectsOf es"
| "selectsOf (Update d # es) = selectsOf es"

text \<open>
  Case-insensitive matching of ASCII text, stated without lower-casing: two characters
  are equal up to case when they are the same or one is the capital of the other, and a
  term is a case-insensitive substring of a label when some contiguous run of the label
  equals the term up to case, character by character.
\<close>

definition upperLowerPairs :: "(char \<times> char) list" where
  "upperLowerPairs = zip ''ABCDEFGHIJKLMNOPQRSTUVWXYZ'' ''abcdefghijklmnopqrstuvwxyz''"

definition ciEqualChar :: "char \<Rightarrow> char \<Rightarrow> bool" where
  "ciEqualChar c d = (c = d \<or> (c, d) \<in> set upperLowerPairs \<or> (d, c) \<in> set upperLowerPairs)"

definition ciSubstring :: "string \<Rightarrow> string \<Rightarrow> bool" where
  "ciSubstring search lbl = (\<exists>seg. sublist seg lbl \<and> list_all2 ciEqualChar seg search)"

text \<open>
  What \<^verbatim>\<open>toLowerCase\<close> does to a string of ASCII characters: each capital
  becomes its small letter and every other character stays.
\<close>

definition isAscii :: "string \<Rightarrow> bool" where
  "isAscii s = list_all (\<lambda>c. (of_char c :: nat) < 128) s"

definition asciiLowerChar :: "char \<Rightarrow> char" where
  "asciiLowerChar c = (case map_of upperLowerPairs c of Some l \<Rightarrow> l | None \<Rightarrow> c)"

definition lowersAscii :: "(string \<Rightarrow> string) \<Rightarrow> bool" where
  "lowersAscii toLowerCase = (\<forall>s. isAscii s \<longrightarrow> toLowerCase s = map asciiLowerChar s)"

text \<open>
  The Greek strings of an example, in UTF-8: the label \<open>A\<Sigma>B\<close> and the term
  \<open>A\<Sigma>\<close>, with capital sigma U+03A3. Their lower-case forms are \<open>a\<sigma>b\<close>, with
  U+03C3, and \<open>a\<varsigma>\<close>, with the final sigma U+03C2 that the rule
  \<^verbatim>\<open>Final_Sigma\<close> of the Unicode special casing prescribes at the end of a word.
  \<open>exampleLower\<close> is an instance of the parameter \<open>toLowerCase\<close> for the examples:
  it has these two values and lower-cases ASCII strings; it is not applied to any other
  string.
\<close>

definition sigmaLabel :: string where
  "sigmaLabel = [CHR 0x41, CHR 0xCE, CHR 0xA3, CHR 0x42]"

definition sigmaTerm :: string where
  "sigmaTerm = [CHR 0x41, CHR 0xCE, CHR 0xA3]"

definition exampleLower :: "string \<Rightarrow> string" where
  "exampleLower s =
     (if s = sigmaLabel then [CHR 0x61, CHR 0xCF, CHR 0x83, CHR 0x62]
      else if s = sigmaTerm then [CHR 0x61, CHR 0xCF, CHR 0x82]
      else map asciiLowerChar s)"

text \<open>
  How many of the descendant ids collected for a node lie in a selection; the selection
  an array value stands for.
\<close>

definition selectedCount :: "ident set \<Rightarrow> node \<Rightarrow> nat" where
  "selectedCount S n = length (filter (\<lambda>i. i \<in> S) (allDescendantIds n))"

definition selectionSet :: "model_value \<Rightarrow> ident set" where
  "selectionSet mv = (case mv of Arr xs \<Rightarrow> set xs | _ \<Rightarrow> {})"

text \<open>
  The override a node carries (\<^verbatim>\<open>selectionMode\<close>, when it is a non-empty string)
  and the mode \<^verbatim>\<open>part_001\<close> falls back to without one:
  \<^verbatim>\<open>props.multiple ? "multiple" : props.parentMode\<close>. In \<^verbatim>\<open>part_000\<close> the
  fallback is \<^verbatim>\<open>props.parentMode\<close> itself.
\<close>

definition modeOverride :: "node \<Rightarrow> string option" where
  "modeOverride n =
     (case selectionMode n of Some s \<Rightarrow> if s \<noteq> [] then Some s else None | None \<Rightarrow> None)"

definition inheritedMode_001 :: "treeNodeProps \<Rightarrow> string" where
  "inheritedMode_001 p = (if multiple p then ''multiple'' else parentMode p)"

text \<open>
  The component instances of a subtree: a node mounts one instance per child with
  \<open>childProps\<close> (the \<^verbatim>\<open>v-for\<close> of the template; \<^verbatim>\<open>v-if\<close> only
  prunes instances). \<open>resolvedModes\<close> is the top-down resolution of the
  specification: a node takes its override or else the inherited mode, and hands its own
  mode to its children.
\<close>

function mounted_001 :: "treeNodeProps \<Rightarrow> treeNodeProps list" where
  "mounted_001 p =
     p # concat (map (\<lambda>child. mounted_001 (childProps_001 p child)) (children (node p)))"
  by pat_completeness auto
termination
proof (relation "measure (\<lambda>p. size (node p))")
  fix p :: treeNodeProps and child
  assume "child \<in> set (children (node p))"
  then have "size child < size (node p)"
    by (cases "node p") (auto simp: less_Suc_eq_le size_list_estimation')
  then show "(childProps_001 p child, p) \<in> measure (\<lambda>p. size (node p))"
    by (simp add: childProps_001_def)
qed simp

function mounted_000 :: "'v nodeProps \<Rightarrow> 'v nodeProps list" where
  "mounted_000 p =
     p # concat (map (\<lambda>child. mounted_000 (childProps_000 p child)) (children (node p)))"
  by pat_completeness auto
termination
proof (relation "measure (\<lambda>p. size (node p))")
  fix p :: "'v nodeProps" and child
  assume "child \<in> set (children (node p))"
  then have "size child < size (node p)"
    by (cases "node p") (auto simp: less_Suc_eq_le size_list_estimation')
  then show "(childProps_000 p child, p) \<in> measure (\<lambda>p. size (node p))"
    by (simp add: childProps_000_def)
qed simp

declare mounted_001.simps [simp del] mounted_000.simps [simp del]

fun resolvedModes :: "string \<Rightarrow> node \<Rightarrow> (node \<times> string) list" where
  "resolvedModes inherited (Node i l cs m) =
     (let mode = (case modeOverride (Node i l cs m) of Some s \<Rightarrow> s | None \<Rightarrow> inherited)
      in (Node i l cs m, mode) # concat (map (resolvedModes mode) cs))"

text \<open>Example trees used to exercise the theorems.\<close>

definition fruit :: node where
  "fruit =
     Node (Num 1) ''Fruit''
       [Node (Num 2) ''Apple'' [] None, Node (Num 3) ''Banana'' [] None] None"

definition fruitProps_000 :: "ident list \<Rightarrow> ident list nodeProps" where
  "fruitProps_000 sel =
     \<lparr>node = fruit, modelValue = sel, searchTerm = [], parentMode = ''multiple'',
      siblings = []\<rparr>"

definition apple :: node where
  "apple = Node (Num 2) ''Apple'' [] None"

definition banana :: node where
  "banana = Node (Num 3) ''Banana'' [] None"

definition singleFruit :: node where
  "singleFruit = Node (Num 1) ''Fruit'' [apple, banana] (Some ''single'')"

definition appleProps :: "model_value \<Rightarrow> treeNodeProps" where
  "appleProps mv = childProps_001 (rootProps mv False [] singleFruit) apple"

definition appleProps_000 :: "ident list \<Rightarrow> ident list nodeProps" where
  "appleProps_000 sel =
     \<lparr>node = apple, modelValue = sel, searchTerm = [], parentMode = ''single'',
      siblings = [apple, banana]\<rparr>"

definition abc :: node where
  "abc =
     Node (Str ''a'') ''A''
       [Node (Str ''b'') ''B'' [] None, Node (Str ''c'') ''C'' [] None] None"

definition sigmaNode :: node where
  "sigmaNode = Node (Num 1) sigmaLabel [] None"

section \<open>Basic facts\<close>

lemma set_fold_set_add: "set (fold set_add xs s) = set xs \<union> set s"
  by (induction xs arbitrary: s) (auto simp: set_add_def)

lemma distinct_fold_set_add: "distinct s \<Longrightarrow> distinct (fold set_add xs s)"
  by (induction xs arbitrary: s) (auto simp: set_add_def)

lemma fold_collectIds_aux:
  assumes "\<And>c acc. c \<in> set cs \<Longrightarrow> collectIds c acc = acc @ map nid (subtree c)"
  shows "fold collectIds cs acc = acc @ map nid (concat (map subtree cs))"
  using assms by (induction cs arbitrary: acc) auto

lemma collectIds_append: "collectIds n acc = acc @ map nid (subtree n)"
proof (induction n arbitrary: acc)
  case (Node i l cs m)
  have "fold collectIds cs (acc @ [i]) = (acc @ [i]) @ map nid (concat (map subtree cs))"
    by (rule fold_collectIds_aux) (simp add: Node.IH)
  then show ?case by simp
qed

lemma allDescendantIds_eq: "allDescendantIds n = map nid (descendants n)"
  by (cases n) (simp add: allDescendantIds_def hasChildren_def descendants_def
      fold_collectIds_aux [OF collectIds_append])

lemma set_allDescendantIds: "set (allDescendantIds n) = descendantIds n"
  by (simp add: allDescendantIds_eq descendantIds_def)

lemma allDescendantIds_fruit: "allDescendantIds fruit = [Num 2, Num 3]"
  by (simp add: allDescendantIds_eq descendants_def fruit_def)

lemma descendantIds_fruit: "descendantIds fruit = {Num 2, Num 3}"
  by (simp add: descendantIds_def descendants_def fruit_def)

lemma currentMode_001_searchTerm:
  "currentMode_001 (p\<lparr>searchTerm := t\<rparr>) = currentMode_001 p"
  by (simp add: currentMode_001_def split: option.split)

lemma currentMode_000_searchTerm:
  "currentMode_000 (p\<lparr>searchTerm := t\<rparr>) = currentMode_000 p"
  by (simp add: currentMode_000_def split: option.split)

lemma isChecked_001_searchTerm:
  "isChecked_001 (p\<lparr>searchTerm := t\<rparr>) = isChecked_001 p"
  by (simp add: isChecked_001_def split: model_value.split)

lemma isChecked_000_searchTerm:
  "isChecked_000 (p\<lparr>searchTerm := t\<rparr>) = isChecked_000 p"
  by (simp add: isChecked_000_def)

lemma currentMode_001_rootProps_None:
  "selectionMode n = None \<Longrightarrow> currentMode_001 (rootProps mv mult t n) = ''multiple''"
  by (simp add: currentMode_001_def rootProps_def)

lemma currentMode_000_fruitProps: "currentMode_000 (fruitProps_000 sel) = ''multiple''"
  by (simp add: currentMode_000_def fruitProps_000_def fruit_def)

section \<open>Multiple-mode activation\<close>

text \<open>
  C2. In both revisions of the node component, an activation of a node whose effective
  mode is \<open>multiple\<close> emits exactly one \<^verbatim>\<open>update\<close> delta. If the node is
  checked, \<open>add\<close> is empty and \<open>remove\<close> is, as a set, the node's id together
  with \<open>descendantIds\<close> of the node; if it is not checked, \<open>add\<close> is that set and
  \<open>remove\<close> is empty.
\<close>

theorem multiple_activation_delta:
  "(currentMode_001 p = ''multiple'' \<longrightarrow>
      (\<exists>d. updatesOf (handleSelect_001 p) = [d] \<and>
        (if isChecked_001 p
         then add d = [] \<and> set (remove d) = insert (nid (node p)) (descendantIds (node p))
         else set (add d) = insert (nid (node p)) (descendantIds (node p)) \<and> remove d = [])))
   \<and> (currentMode_000 q = ''multiple'' \<longrightarrow>
      (\<exists>d. updatesOf (handleSelect_000 q) = [d] \<and>
        (if isChecked_000 q
         then add d = [] \<and> set (remove d) = insert (nid (node q)) (descendantIds (node q))
         else set (add d) = insert (nid (node q)) (descendantIds (node q)) \<and> remove d = [])))"
  by (simp add: handleSelect_001_def handleSelect_000_def Let_def set_fold_set_add
      set_allDescendantIds set_add_def)

theorem multiple_activation_delta_witness:
  "currentMode_001 (rootProps (Arr []) True [] fruit) = ''multiple''
   \<and> currentMode_000 (fruitProps_000 [Num 1]) = ''multiple''
   \<and> (\<exists>d. updatesOf (handleSelect_001 (rootProps (Arr []) True [] fruit)) = [d]
          \<and> set (add d) = {Num 1, Num 2, Num 3} \<and> remove d = [])
   \<and> (\<exists>d. updatesOf (handleSelect_000 (fruitProps_000 [Num 1])) = [d]
          \<and> add d = [] \<and> set (remove d) = {Num 1, Num 2, Num 3})"
proof -
  have m1: "currentMode_001 (rootProps (Arr []) True [] fruit) = ''multiple''"
    by (simp add: currentMode_001_rootProps_None fruit_def)
  have m0: "currentMode_000 (fruitProps_000 [Num 1]) = ''multiple''"
    by (rule currentMode_000_fruitProps)
  have c1: "\<not> isChecked_001 (rootProps (Arr []) True [] fruit)"
    by (simp add: isChecked_001_def rootProps_def)
  have c0: "isChecked_000 (fruitProps_000 [Num 1])"
    by (simp add: isChecked_000_def fruitProps_000_def fruit_def)
  have n1: "node (rootProps (Arr []) True [] fruit) = fruit"
    by (simp add: rootProps_def)
  have n0: "node (fruitProps_000 [Num 1]) = fruit"
    by (simp add: fruitProps_000_def)
  have i: "nid fruit = Num 1"
    by (simp add: fruit_def)
  show ?thesis
    using multiple_activation_delta
      [of "rootProps (Arr []) True [] fruit" "fruitProps_000 [Num 1]"]
    by (simp add: m1 m0 c1 c0 n1 n0 i descendantIds_fruit)
qed

section \<open>The search term and the delta\<close>

text \<open>
  C10. The events emitted by an activation, and so the \<open>add\<close> and \<open>remove\<close> sets
  of its delta, are the same for any two search terms, in both revisions of the node
  component.
\<close>

theorem delta_independent_of_searchTerm:
  "handleSelect_001 (p\<lparr>searchTerm := t1\<rparr>) = handleSelect_001 (p\<lparr>searchTerm := t2\<rparr>)
   \<and> handleSelect_000 (q\<lparr>searchTerm := t1\<rparr>) = handleSelect_000 (q\<lparr>searchTerm := t2\<rparr>)"
  by (simp add: handleSelect_001_def handleSelect_000_def currentMode_001_searchTerm
      currentMode_000_searchTerm isChecked_001_searchTerm isChecked_000_searchTerm)

section \<open>Indeterminate status\<close>

lemma isIndeterminate_001_iff:
  "currentMode_001 p = ''multiple'' \<Longrightarrow>
   isIndeterminate_001 p =
     (if \<not> hasChildren (node p) \<or> isChecked_001 p then False
      else 0 < selectedCount (selectionSet (modelValue p)) (node p)
           \<and> selectedCount (selectionSet (modelValue p)) (node p)
               < length (allDescendantIds (node p)))"
  by (simp add: isIndeterminate_001_def selectedCount_def selectionSet_def Let_def
      split: model_value.split)

lemma isIndeterminate_000_iff:
  "isIndeterminate_000 q =
     (currentMode_000 q = ''multiple'' \<and> hasChildren (node q) \<and> \<not> isChecked_000 q
      \<and> 0 < selectedCount (set (modelValue q)) (node q))"
  by (simp add: isIndeterminate_000_def selectedCount_def Let_def)

lemma selectedCount_card:
  assumes "distinct (allDescendantIds n)"
  shows "selectedCount S n = card (descendantIds n \<inter> S)"
    and "length (allDescendantIds n) = card (descendantIds n)"
proof -
  have "selectedCount S n = card ({i. i \<in> S} \<inter> set (allDescendantIds n))"
    unfolding selectedCount_def using assms by (rule distinct_length_filter)
  also have "{i. i \<in> S} \<inter> set (allDescendantIds n) = descendantIds n \<inter> S"
    by (auto simp: set_allDescendantIds)
  finally show "selectedCount S n = card (descendantIds n \<inter> S)" .
  show "length (allDescendantIds n) = card (descendantIds n)"
    using assms by (simp add: distinct_card flip: set_allDescendantIds)
qed

text \<open>
  With ids unique in the subtree, \<^verbatim>\<open>part_001\<close> in multiple mode reports
  indeterminate exactly when the node has children, is not checked, and the number of
  selected members of \<open>descendantIds\<close> is strictly between zero and the number of all
  of them.
\<close>

lemma isIndeterminate_001_card:
  assumes "currentMode_001 p = ''multiple''" and "distinct (allDescendantIds (node p))"
  shows "isIndeterminate_001 p \<longleftrightarrow>
           hasChildren (node p) \<and> \<not> isChecked_001 p
           \<and> 0 < card (descendantIds (node p) \<inter> selectionSet (modelValue p))
           \<and> card (descendantIds (node p) \<inter> selectionSet (modelValue p))
               < card (descendantIds (node p))"
  using isIndeterminate_001_iff [OF assms(1)] selectedCount_card [OF assms(2)]
  by auto

text \<open>
  C1. The revision \<^verbatim>\<open>part_001\<close> computes the indeterminate status as stated
  (\<open>isIndeterminate_001_iff\<close>). The revision \<^verbatim>\<open>part_000\<close> has no upper bound:
  for the node \<open>Fruit\<close> in multiple mode, not checked, with both of its two descendant
  ids selected, it reports indeterminate, where the stated rule (strictly fewer than all
  descendants selected) gives false.
\<close>

theorem isIndeterminate_000_all_descendants_selected:
  "currentMode_000 (fruitProps_000 [Num 2, Num 3]) = ''multiple''
   \<and> hasChildren (node (fruitProps_000 [Num 2, Num 3]))
   \<and> \<not> isChecked_000 (fruitProps_000 [Num 2, Num 3])
   \<and> selectedCount (set (modelValue (fruitProps_000 [Num 2, Num 3])))
        (node (fruitProps_000 [Num 2, Num 3])) = 2
   \<and> length (allDescendantIds (node (fruitProps_000 [Num 2, Num 3]))) = 2
   \<and> isIndeterminate_000 (fruitProps_000 [Num 2, Num 3])"
proof -
  have n: "node (fruitProps_000 [Num 2, Num 3]) = fruit"
    and m: "modelValue (fruitProps_000 [Num 2, Num 3]) = [Num 2, Num 3]"
    by (simp_all add: fruitProps_000_def)
  have h: "hasChildren fruit" and i: "nid fruit = Num 1"
    by (simp_all add: hasChildren_def fruit_def)
  show ?thesis
    by (simp add: isIndeterminate_000_iff currentMode_000_fruitProps selectedCount_def
        isChecked_000_def n m h i allDescendantIds_fruit)
qed

text \<open>On the same tree and selection the two revisions disagree.\<close>

theorem isIndeterminate_000_all_descendants_selected_witness:
  "isIndeterminate_000 (fruitProps_000 [Num 2, Num 3])
   \<and> \<not> isIndeterminate_001 (rootProps (Arr [Num 2, Num 3]) True [] fruit)"
proof -
  have m: "currentMode_001 (rootProps (Arr [Num 2, Num 3]) True [] fruit) = ''multiple''"
    by (simp add: currentMode_001_rootProps_None fruit_def)
  have n: "node (rootProps (Arr [Num 2, Num 3]) True [] fruit) = fruit"
    and v: "modelValue (rootProps (Arr [Num 2, Num 3]) True [] fruit) = Arr [Num 2, Num 3]"
    by (simp_all add: rootProps_def)
  have "\<not> isIndeterminate_001 (rootProps (Arr [Num 2, Num 3]) True [] fruit)"
    by (simp add: isIndeterminate_001_iff [OF m] n v selectedCount_def selectionSet_def
        allDescendantIds_fruit)
  then show ?thesis
    using isIndeterminate_000_all_descendants_selected by simp
qed

section \<open>Merging a delta\<close>

lemma set_new_Set: "set (new_Set xs) = set xs"
  by (simp add: new_Set_def set_fold_set_add)

lemma distinct_new_Set: "distinct (new_Set xs)"
  by (simp add: new_Set_def distinct_fold_set_add)

lemma set_fold_set_delete: "set (fold set_delete rs s) = set s - set rs"
  by (induction rs arbitrary: s) (auto simp: set_delete_def)

lemma distinct_fold_set_delete: "distinct s \<Longrightarrow> distinct (fold set_delete rs s)"
  by (induction rs arbitrary: s) (auto simp: set_delete_def)

lemma guarded_set_add: "(\<lambda>i s. if i \<notin> set s then set_add i s else s) = set_add"
  by (rule ext, rule ext) (simp add: set_add_def)

lemma set_currentSelectionOf_Arr: "set (currentSelectionOf (Arr S)) = set S"
  by (simp add: currentSelectionOf_def set_new_Set)

lemma distinct_currentSelectionOf: "distinct (currentSelectionOf mv)"
  by (simp add: currentSelectionOf_def distinct_new_Set)

lemma set_sortedSelection: "set (sortedSelection opts xs) = set xs"
  by (simp add: sortedSelection_def)

lemma distinct_sortedSelection: "distinct (sortedSelection opts xs) = distinct xs"
  by (simp add: sortedSelection_def)

lemma handleNodeUpdate_vue_multiple:
  "\<exists>xs. handleNodeUpdate_vue opts True (Arr S) d = [EmitModelValue (Arr xs)]
        \<and> distinct xs \<and> set xs = (set S \<union> set (add d)) - set (remove d)"
  by (auto simp add: handleNodeUpdate_vue_def Let_def guarded_set_add set_sortedSelection
      distinct_sortedSelection set_fold_set_delete distinct_fold_set_delete
      set_fold_set_add distinct_fold_set_add set_currentSelectionOf_Arr
      distinct_currentSelectionOf)

lemma handleNodeUpdate_002_multiple:
  "\<exists>xs. handleNodeUpdate_002 True (Arr S) d = [EmitModelValue (Arr xs)]
        \<and> distinct xs \<and> set xs = (set S \<union> set (add d)) - set (remove d)"
  by (auto simp add: handleNodeUpdate_002_def Let_def
      set_fold_set_delete distinct_fold_set_delete
      set_fold_set_add distinct_fold_set_add set_currentSelectionOf_Arr
      distinct_currentSelectionOf)

text \<open>
  C3. In both controllers, the multiple-mode merge of a delta with disjoint \<open>add\<close> and
  \<open>remove\<close> into an array selection \<open>S\<close> emits one array without repetitions whose
  set of members is \<open>(S \<union> add) - remove\<close>. That set is a function of the three sets
  alone, and it is also what removing first and adding afterwards gives.
\<close>

theorem merge_is_union_minus_remove:
  assumes "set (add d) \<inter> set (remove d) = {}"
  shows "(\<exists>xs. handleNodeUpdate_vue opts True (Arr S) d = [EmitModelValue (Arr xs)]
            \<and> distinct xs
            \<and> set xs = (set S \<union> set (add d)) - set (remove d)
            \<and> set xs = (set S - set (remove d)) \<union> set (add d))
       \<and> (\<exists>xs. handleNodeUpdate_002 True (Arr S) d = [EmitModelValue (Arr xs)]
            \<and> distinct xs
            \<and> set xs = (set S \<union> set (add d)) - set (remove d)
            \<and> set xs = (set S - set (remove d)) \<union> set (add d))"
proof -
  have eq: "(set S \<union> set (add d)) - set (remove d) = (set S - set (remove d)) \<union> set (add d)"
    using assms by blast
  show ?thesis
    using handleNodeUpdate_vue_multiple [of opts S d] handleNodeUpdate_002_multiple [of S d] eq
    by metis
qed

theorem merge_is_union_minus_remove_witness:
  "set (add \<lparr>add = [Num 2], remove = [Num 3]\<rparr>)
     \<inter> set (remove \<lparr>add = [Num 2], remove = [Num 3]\<rparr>) = {}
   \<and> (\<exists>xs. handleNodeUpdate_vue [fruit] True (Arr [Num 3, Num 1])
               \<lparr>add = [Num 2], remove = [Num 3]\<rparr> = [EmitModelValue (Arr xs)]
          \<and> set xs = {Num 1, Num 2})
   \<and> (\<exists>xs. handleNodeUpdate_002 True (Arr [Num 3, Num 1])
               \<lparr>add = [Num 2], remove = [Num 3]\<rparr> = [EmitModelValue (Arr xs)]
          \<and> set xs = {Num 1, Num 2})"
proof -
  have disj: "set (add \<lparr>add = [Num 2], remove = [Num 3]\<rparr>)
              \<inter> set (remove \<lparr>add = [Num 2], remove = [Num 3]\<rparr>) = {}"
    by simp
  have s: "(set [Num 3, Num 1] \<union> set (add \<lparr>add = [Num 2], remove = [Num 3]\<rparr>))
             - set (remove \<lparr>add = [Num 2], remove = [Num 3]\<rparr>) = {Num 1, Num 2}"
    by auto
  show ?thesis
    using merge_is_union_minus_remove [OF disj, of "[fruit]" "[Num 3, Num 1]"] disj
    unfolding s by blast
qed

section \<open>Single-mode activation\<close>

lemma appleProps_eq:
  "appleProps mv =
     \<lparr>node = apple, modelValue = mv, searchTerm = [], parentMode = ''single'',
      siblings = [apple, banana], multiple = False\<rparr>"
  by (simp add: appleProps_def childProps_001_def rootProps_def currentMode_001_def
      singleFruit_def)

lemma currentMode_001_appleProps: "currentMode_001 (appleProps mv) = ''single''"
  by (simp add: appleProps_eq currentMode_001_def apple_def)

lemma currentMode_000_appleProps: "currentMode_000 (appleProps_000 sel) = ''single''"
  by (simp add: appleProps_000_def currentMode_000_def apple_def)

lemma set_siblingsToRemove_aux:
  "set (fold (\<lambda>sibling toRemove.
               if nid sibling \<noteq> i then set_add (nid sibling) toRemove else toRemove)
          sibs acc)
   = (nid ` set sibs - {i}) \<union> set acc"
  by (induction sibs arbitrary: acc) (auto simp: set_add_def)

lemma set_siblingsToRemove: "set (siblingsToRemove sibs i) = nid ` set sibs - {i}"
  by (simp add: siblingsToRemove_def set_siblingsToRemove_aux)

text \<open>
  The node \<open>Apple\<close> under a parent with \<^verbatim>\<open>selectionMode: 'single'\<close>, in a
  controller configured single whose value is \<open>Apple\<close>'s id: the node is in single
  mode and checked, and its activation does emit an event, an \<^verbatim>\<open>update\<close> with
  empty lists.
\<close>

theorem checked_single_activation_emits_update:
  "currentMode_001 (appleProps (Scalar (Num 2))) = ''single''
   \<and> isChecked_001 (appleProps (Scalar (Num 2)))
   \<and> handleSelect_001 (appleProps (Scalar (Num 2))) = [Update \<lparr>add = [], remove = []\<rparr>]
   \<and> handleSelect_001 (appleProps (Scalar (Num 2))) \<noteq> []"
  by (simp add: handleSelect_001_def currentMode_001_appleProps)
     (simp add: appleProps_eq isChecked_001_def apple_def)

text \<open>
  C4 (amended). Activating a single-mode node that is already checked emits no
  \<^verbatim>\<open>select\<close> event and exactly one \<^verbatim>\<open>update\<close> event, whose \<open>add\<close>
  and \<open>remove\<close> are both empty. A controller configured single does nothing on that
  event: it emits no new value and does not close the dropdown. A controller configured
  multiple re-emits the selection, with the same set of ids.
\<close>

theorem checked_single_activation:
  "(currentMode_001 p = ''single'' \<and> isChecked_001 p \<longrightarrow>
      handleSelect_001 p = [Update \<lparr>add = [], remove = []\<rparr>])
   \<and> (currentMode_000 q = ''single'' \<and> isChecked_000 q \<longrightarrow>
      handleSelect_000 q = [Update \<lparr>add = [], remove = []\<rparr>])
   \<and> handleNodeUpdate_vue opts False mv \<lparr>add = [], remove = []\<rparr> = []
   \<and> handleNodeUpdate_002 False mv \<lparr>add = [], remove = []\<rparr> = []
   \<and> (\<exists>xs. handleNodeUpdate_vue opts True (Arr S) \<lparr>add = [], remove = []\<rparr>
              = [EmitModelValue (Arr xs)] \<and> set xs = set S)
   \<and> (\<exists>xs. handleNodeUpdate_002 True (Arr S) \<lparr>add = [], remove = []\<rparr>
              = [EmitModelValue (Arr xs)] \<and> set xs = set S)"
  by (simp add: handleSelect_001_def handleSelect_000_def handleNodeUpdate_vue_def
      handleNodeUpdate_002_def set_sortedSelection set_currentSelectionOf_Arr)

theorem checked_single_activation_witness:
  "currentMode_001 (appleProps (Scalar (Num 2))) = ''single''
   \<and> isChecked_001 (appleProps (Scalar (Num 2)))
   \<and> currentMode_000 (appleProps_000 [Num 2]) = ''single''
   \<and> isChecked_000 (appleProps_000 [Num 2])
   \<and> selectsOf (handleSelect_001 (appleProps (Scalar (Num 2)))) = []
   \<and> updatesOf (handleSelect_001 (appleProps (Scalar (Num 2)))) = [\<lparr>add = [], remove = []\<rparr>]
   \<and> updatesOf (handleSelect_000 (appleProps_000 [Num 2])) = [\<lparr>add = [], remove = []\<rparr>]"
proof -
  have c1: "isChecked_001 (appleProps (Scalar (Num 2)))"
    by (simp add: appleProps_eq isChecked_001_def apple_def)
  have c0: "isChecked_000 (appleProps_000 [Num 2])"
    by (simp add: appleProps_000_def isChecked_000_def apple_def)
  show ?thesis
    using checked_single_activation [of "appleProps (Scalar (Num 2))" "appleProps_000 [Num 2]"]
    by (simp add: c1 c0 currentMode_001_appleProps currentMode_000_appleProps)
qed

text \<open>
  The same node, not checked: its delta removes the id of its sibling \<open>Banana\<close>.
\<close>

theorem unchecked_single_activation_removes_sibling:
  "currentMode_001 (appleProps MNull) = ''single''
   \<and> \<not> isChecked_001 (appleProps MNull)
   \<and> updatesOf (handleSelect_001 (appleProps MNull)) = [\<lparr>add = [Num 2], remove = [Num 3]\<rparr>]"
  by (simp add: handleSelect_001_def currentMode_001_appleProps)
     (simp add: appleProps_eq isChecked_001_def apple_def banana_def siblingsToRemove_def
      set_add_def)

text \<open>
  C5 (amended). Activating an unchecked single-mode node emits one delta whose \<open>add\<close>
  is the node's id alone and whose \<open>remove\<close> is, as a set, the ids of the node's
  siblings other than the node's own id. A root option is handed no siblings, so there
  \<open>remove\<close> is empty.
\<close>

theorem unchecked_single_activation_delta:
  "(currentMode_001 p = ''single'' \<and> \<not> isChecked_001 p \<longrightarrow>
      (\<exists>d. updatesOf (handleSelect_001 p) = [d] \<and> add d = [nid (node p)]
           \<and> set (remove d) = nid ` set (siblings p) - {nid (node p)}))
   \<and> (currentMode_000 q = ''single'' \<and> \<not> isChecked_000 q \<longrightarrow>
      (\<exists>d. updatesOf (handleSelect_000 q) = [d] \<and> add d = [nid (node q)]
           \<and> set (remove d) = nid ` set (siblings q) - {nid (node q)}))
   \<and> (currentMode_001 (rootProps mv mult t n) = ''single''
        \<and> \<not> isChecked_001 (rootProps mv mult t n) \<longrightarrow>
      updatesOf (handleSelect_001 (rootProps mv mult t n)) = [\<lparr>add = [nid n], remove = []\<rparr>])"
  by (simp add: handleSelect_001_def handleSelect_000_def set_siblingsToRemove set_add_def)
     (simp add: rootProps_def siblingsToRemove_def)

theorem unchecked_single_activation_delta_witness:
  "currentMode_001 (appleProps MNull) = ''single''
   \<and> \<not> isChecked_001 (appleProps MNull)
   \<and> currentMode_000 (appleProps_000 []) = ''single''
   \<and> \<not> isChecked_000 (appleProps_000 [])
   \<and> (\<exists>d. updatesOf (handleSelect_001 (appleProps MNull)) = [d]
          \<and> add d = [Num 2] \<and> set (remove d) = {Num 3})
   \<and> (\<exists>d. updatesOf (handleSelect_000 (appleProps_000 [])) = [d]
          \<and> add d = [Num 2] \<and> set (remove d) = {Num 3})
   \<and> currentMode_001 (rootProps MNull False [] singleFruit) = ''single''
   \<and> \<not> isChecked_001 (rootProps MNull False [] singleFruit)
   \<and> updatesOf (handleSelect_001 (rootProps MNull False [] singleFruit))
       = [\<lparr>add = [Num 1], remove = []\<rparr>]"
proof -
  have c1: "\<not> isChecked_001 (appleProps MNull)"
    by (simp add: appleProps_eq isChecked_001_def)
  have c0: "\<not> isChecked_000 (appleProps_000 [])"
    by (simp add: appleProps_000_def isChecked_000_def)
  have s1: "nid ` set (siblings (appleProps MNull)) - {nid (node (appleProps MNull))} = {Num 3}"
    by (auto simp add: appleProps_eq apple_def banana_def)
  have s0: "nid ` set (siblings (appleProps_000 [])) - {nid (node (appleProps_000 []))}
            = {Num 3}"
    by (auto simp add: appleProps_000_def apple_def banana_def)
  have n1: "nid (node (appleProps MNull)) = Num 2"
    by (simp add: appleProps_eq apple_def)
  have n0: "nid (node (appleProps_000 [])) = Num 2"
    by (simp add: appleProps_000_def apple_def)
  have mr: "currentMode_001 (rootProps MNull False [] singleFruit) = ''single''"
    by (simp add: currentMode_001_def rootProps_def singleFruit_def)
  have cr: "\<not> isChecked_001 (rootProps MNull False [] singleFruit)"
    by (simp add: isChecked_001_def rootProps_def)
  have nr: "nid singleFruit = Num 1"
    by (simp add: singleFruit_def)
  note t = unchecked_single_activation_delta
      [of "appleProps MNull" "appleProps_000 []" MNull False "[]" singleFruit]
  have r: "(\<exists>d. updatesOf (handleSelect_001 (appleProps MNull)) = [d]
              \<and> add d = [nid (node (appleProps MNull))] \<and> set (remove d) = {Num 3})
         \<and> (\<exists>d. updatesOf (handleSelect_000 (appleProps_000 [])) = [d]
              \<and> add d = [nid (node (appleProps_000 []))] \<and> set (remove d) = {Num 3})"
    using t unfolding s1 s0
    by (simp add: c1 c0 currentMode_001_appleProps currentMode_000_appleProps)
  have rr: "updatesOf (handleSelect_001 (rootProps MNull False [] singleFruit))
       = [\<lparr>add = [Num 1], remove = []\<rparr>]"
    using t by (simp add: mr cr nr)
  show ?thesis
    using r rr unfolding n1 n0
    by (simp add: c1 c0 mr cr currentMode_001_appleProps currentMode_000_appleProps)
qed

section \<open>Effective mode\<close>

text \<open>
  A controller configured single (\<^verbatim>\<open>multiple\<close> false) mounts the root option
  \<open>Fruit\<close>, which has no override: the node's mode is \<open>multiple\<close>, not
  \<open>single\<close>.
\<close>

theorem root_mode_of_single_widget_is_multiple:
  "modeOverride fruit = None
   \<and> currentMode_001 (rootProps MNull False [] fruit) = ''multiple''
   \<and> currentMode_001 (rootProps MNull False [] fruit) \<noteq> ''single''"
  by (simp add: currentMode_001_def rootProps_def fruit_def modeOverride_def)

lemma currentMode_001_resolution:
  "currentMode_001 p
     = (case modeOverride (node p) of Some s \<Rightarrow> s | None \<Rightarrow> inheritedMode_001 p)"
  by (simp add: currentMode_001_def modeOverride_def inheritedMode_001_def
      split: option.split)

lemma currentMode_000_resolution:
  "currentMode_000 q = (case modeOverride (node q) of Some s \<Rightarrow> s | None \<Rightarrow> parentMode q)"
  by (simp add: currentMode_000_def modeOverride_def split: option.split)

lemma mounted_001_modes:
  "map (\<lambda>r. (node r, currentMode_001 r)) (mounted_001 p)
   = resolvedModes (inheritedMode_001 p) (node p)"
proof (induction p rule: mounted_001.induct)
  case (1 p)
  obtain i l cs m where n: "node p = Node i l cs m"
    by (cases "node p")
  have ih: "\<And>c. c \<in> set cs \<Longrightarrow>
      map (\<lambda>r. (node r, currentMode_001 r)) (mounted_001 (childProps_001 p c))
      = resolvedModes (currentMode_001 p) c"
    using "1.IH" n by (simp add: childProps_001_def inheritedMode_001_def)
  show ?case
    by (subst mounted_001.simps)
       (simp add: n map_concat o_def Let_def currentMode_001_resolution [of p, unfolded n] ih
        cong: map_cong)
qed

lemma mounted_000_modes:
  "map (\<lambda>r. (node r, currentMode_000 r)) (mounted_000 q)
   = resolvedModes (parentMode q) (node q)"
proof (induction q rule: mounted_000.induct)
  case (1 q)
  obtain i l cs m where n: "node q = Node i l cs m"
    by (cases "node q")
  have ih: "\<And>c. c \<in> set cs \<Longrightarrow>
      map (\<lambda>r. (node r, currentMode_000 r)) (mounted_000 (childProps_000 q c))
      = resolvedModes (currentMode_000 q) c"
    using "1.IH" n by (simp add: childProps_000_def)
  show ?case
    by (subst mounted_000.simps)
       (simp add: n map_concat o_def Let_def currentMode_000_resolution [of q, unfolded n] ih
        cong: map_cong)
qed

text \<open>
  C6 (amended). The effective mode of a node is its own \<^verbatim>\<open>selectionMode\<close> when
  that is present and non-empty, and otherwise the inherited mode. The inherited mode of
  a root option is always \<open>multiple\<close>, whether the controller is configured single or
  multiple; the inherited mode of a child is the effective mode of its parent. So the
  modes of all instances mounted under a root option are the ones resolved top-down from
  \<open>multiple\<close>.
\<close>

theorem effective_mode_resolution:
  "currentMode_001 p
     = (case modeOverride (node p) of Some s \<Rightarrow> s | None \<Rightarrow> inheritedMode_001 p)
   \<and> currentMode_000 q = (case modeOverride (node q) of Some s \<Rightarrow> s | None \<Rightarrow> parentMode q)
   \<and> inheritedMode_001 (rootProps mv mult t n) = ''multiple''
   \<and> inheritedMode_001 (childProps_001 p c) = currentMode_001 p
   \<and> parentMode (childProps_000 q c) = currentMode_000 q
   \<and> map (\<lambda>r. (node r, currentMode_001 r)) (mounted_001 (rootProps mv mult t n))
       = resolvedModes ''multiple'' n
   \<and> map (\<lambda>r. (node r, currentMode_000 r)) (mounted_000 q)
       = resolvedModes (parentMode q) (node q)"
proof -
  have root: "inheritedMode_001 (rootProps mv mult t n) = ''multiple''"
    by (simp add: inheritedMode_001_def rootProps_def)
  have child: "inheritedMode_001 (childProps_001 p c) = currentMode_001 p"
    by (simp add: inheritedMode_001_def childProps_001_def)
  have child0: "parentMode (childProps_000 q c) = currentMode_000 q"
    by (simp add: childProps_000_def)
  have all: "map (\<lambda>r. (node r, currentMode_001 r)) (mounted_001 (rootProps mv mult t n))
       = resolvedModes ''multiple'' n"
    using mounted_001_modes [of "rootProps mv mult t n"] root
    by (simp add: rootProps_def)
  show ?thesis
    using currentMode_001_resolution [of p] currentMode_000_resolution [of q] root child
      child0 all mounted_000_modes [of q]
    by simp
qed

theorem effective_mode_resolution_witness:
  "currentMode_001 (rootProps MNull False [] singleFruit) = ''single''
   \<and> inheritedMode_001 (rootProps MNull False [] singleFruit) = ''multiple''
   \<and> currentMode_001 (childProps_001 (rootProps MNull False [] singleFruit) apple) = ''single''
   \<and> currentMode_000 (appleProps_000 []) = ''single''
   \<and> map (\<lambda>r. (node r, currentMode_001 r)) (mounted_001 (rootProps MNull False [] singleFruit))
       = [(singleFruit, ''single''), (apple, ''single''), (banana, ''single'')]
   \<and> map (\<lambda>r. (node r, currentMode_001 r)) (mounted_001 (rootProps MNull False [] fruit))
       = [(fruit, ''multiple''), (apple, ''multiple''), (banana, ''multiple'')]"
proof -
  have nr: "node (rootProps MNull False [] singleFruit) = singleFruit"
    by (simp add: rootProps_def)
  have na: "node (childProps_001 (rootProps MNull False [] singleFruit) apple) = apple"
    by (simp add: childProps_001_def)
  have nq: "node (appleProps_000 []) = apple"
    and pq: "parentMode (appleProps_000 []) = ''single''"
    by (simp_all add: appleProps_000_def)
  have os: "modeOverride singleFruit = Some ''single''"
    by (simp add: modeOverride_def singleFruit_def)
  have oa: "modeOverride apple = None"
    by (simp add: modeOverride_def apple_def)
  note root = effective_mode_resolution
      [of "rootProps MNull False [] singleFruit" "appleProps_000 []" MNull False "[]"
        singleFruit apple]
  note child = effective_mode_resolution
      [of "childProps_001 (rootProps MNull False [] singleFruit) apple" "appleProps_000 []"
        MNull False "[]" singleFruit apple]
  have r1: "currentMode_001 (rootProps MNull False [] singleFruit) = ''single''"
    using root by (simp add: nr os)
  have r2: "inheritedMode_001 (rootProps MNull False [] singleFruit) = ''multiple''"
    using root by blast
  have r3: "inheritedMode_001 (childProps_001 (rootProps MNull False [] singleFruit) apple)
            = currentMode_001 (rootProps MNull False [] singleFruit)"
    using root by blast
  have r4: "currentMode_001 (childProps_001 (rootProps MNull False [] singleFruit) apple)
            = inheritedMode_001 (childProps_001 (rootProps MNull False [] singleFruit) apple)"
    using child by (simp add: na oa)
  have r5: "currentMode_000 (appleProps_000 []) = ''single''"
    using root by (simp add: nq oa pq)
  have r6: "map (\<lambda>r. (node r, currentMode_001 r))
              (mounted_001 (rootProps MNull False [] singleFruit))
            = resolvedModes ''multiple'' singleFruit"
    using root by blast
  have e6: "resolvedModes ''multiple'' singleFruit
            = [(singleFruit, ''single''), (apple, ''single''), (banana, ''single'')]"
    by (simp add: singleFruit_def apple_def banana_def modeOverride_def Let_def)
  have r7: "map (\<lambda>r. (node r, currentMode_001 r)) (mounted_001 (rootProps MNull False [] fruit))
            = resolvedModes ''multiple'' fruit"
    using effective_mode_resolution
      [of "rootProps MNull False [] fruit" "appleProps_000 []" MNull False "[]" fruit apple]
    by blast
  have e7: "resolvedModes ''multiple'' fruit
            = [(fruit, ''multiple''), (apple, ''multiple''), (banana, ''multiple'')]"
    by (simp add: fruit_def apple_def banana_def modeOverride_def Let_def)
  show ?thesis
    using r1 r2 r3 r4 r5 r6 r7 by (simp add: e6 e7)
qed

section \<open>Visibility\<close>

lemma str_includes_iff_sublist: "str_includes s t \<longleftrightarrow> sublist t s"
  by (induction s) (simp_all add: sublist_Cons_right)

lemma isChildVisible_iff:
  "isChildVisible toLowerCase sl n
   \<longleftrightarrow> (\<exists>d\<in>set (subtree n). sublist sl (toLowerCase (label d)))"
proof (induction n)
  case (Node i l cs m)
  then show ?case by (auto simp: list_ex_iff str_includes_iff_sublist)
qed

text \<open>
  What the code decides, for any \<^verbatim>\<open>toLowerCase\<close>: a node is visible exactly when
  the term is empty, or the lower-cased term occurs in the lower-cased label of the node
  or of one of its descendants.
\<close>

lemma isVisible_iff_lowered_contains:
  "isVisible toLowerCase p \<longleftrightarrow>
     searchTerm p = []
     \<or> sublist (toLowerCase (searchTerm p)) (toLowerCase (label (node p)))
     \<or> (\<exists>d\<in>set (descendants (node p)).
           sublist (toLowerCase (searchTerm p)) (toLowerCase (label d)))"
  by (auto simp: isVisible_def Let_def hasChildren_def list_ex_iff isChildVisible_iff
      descendants_def str_includes_iff_sublist)

lemma ciEqualChar_refl: "ciEqualChar c c"
  by (simp add: ciEqualChar_def)

lemma ciSubstring_of_sublist: "sublist t l \<Longrightarrow> ciSubstring t l"
  unfolding ciSubstring_def
  by (rule exI [of _ t]) (simp add: list_all2_refl ciEqualChar_refl)

lemma pairs_distinct_fst: "distinct (map fst upperLowerPairs)"
  by (simp add: upperLowerPairs_def)

lemma pairs_distinct_snd: "distinct (map snd upperLowerPairs)"
  by (simp add: upperLowerPairs_def)

lemma pairs_disjoint: "fst ` set upperLowerPairs \<inter> snd ` set upperLowerPairs = {}"
  by (simp add: upperLowerPairs_def)

lemma map_of_pairs_Some:
  "map_of upperLowerPairs c = Some l \<longleftrightarrow> (c, l) \<in> set upperLowerPairs"
  using pairs_distinct_fst by (rule map_of_eq_Some_iff)

lemma map_of_pairs_None:
  "map_of upperLowerPairs c = None \<longleftrightarrow> c \<notin> fst ` set upperLowerPairs"
  by (rule map_of_eq_None_iff)

lemma pairs_inj:
  "(c, l) \<in> set upperLowerPairs \<Longrightarrow> (d, l) \<in> set upperLowerPairs \<Longrightarrow> c = d"
  using pairs_distinct_snd pairs_distinct_fst
  by (metis distinct_map inj_on_def snd_conv prod.inject)

lemma asciiLowerChar_eq_iff: "asciiLowerChar c = asciiLowerChar d \<longleftrightarrow> ciEqualChar c d"
proof (cases "map_of upperLowerPairs c"; cases "map_of upperLowerPairs d")
  assume c: "map_of upperLowerPairs c = None" and d: "map_of upperLowerPairs d = None"
  have "asciiLowerChar c = c" and "asciiLowerChar d = d"
    by (simp_all add: asciiLowerChar_def c d)
  moreover have "(c, d) \<notin> set upperLowerPairs"
    using c by (auto simp: map_of_pairs_None intro: rev_image_eqI)
  moreover have "(d, c) \<notin> set upperLowerPairs"
    using d by (auto simp: map_of_pairs_None intro: rev_image_eqI)
  ultimately show ?thesis
    by (simp add: ciEqualChar_def)
next
  fix l
  assume c: "map_of upperLowerPairs c = None" and d: "map_of upperLowerPairs d = Some l"
  have lower: "asciiLowerChar c = c" "asciiLowerChar d = l"
    by (simp_all add: asciiLowerChar_def c d)
  have "c \<noteq> d" using c d by auto
  moreover have "(c, d) \<notin> set upperLowerPairs"
    using c by (auto simp: map_of_pairs_None intro: rev_image_eqI)
  moreover have "(d, c) \<in> set upperLowerPairs \<longleftrightarrow> c = l"
    using d by (auto simp: map_of_pairs_Some [symmetric])
  ultimately show ?thesis
    by (simp add: lower ciEqualChar_def)
next
  fix l
  assume c: "map_of upperLowerPairs c = Some l" and d: "map_of upperLowerPairs d = None"
  have lower: "asciiLowerChar c = l" "asciiLowerChar d = d"
    by (simp_all add: asciiLowerChar_def c d)
  have "c \<noteq> d" using c d by auto
  moreover have "(d, c) \<notin> set upperLowerPairs"
    using d by (auto simp: map_of_pairs_None intro: rev_image_eqI)
  moreover have "(c, d) \<in> set upperLowerPairs \<longleftrightarrow> l = d"
    using c by (auto simp: map_of_pairs_Some [symmetric])
  ultimately show ?thesis
    by (simp add: lower ciEqualChar_def)
next
  fix l l'
  assume c: "map_of upperLowerPairs c = Some l" and d: "map_of upperLowerPairs d = Some l'"
  have lower: "asciiLowerChar c = l" "asciiLowerChar d = l'"
    by (simp_all add: asciiLowerChar_def c d)
  have cl: "(c, l) \<in> set upperLowerPairs" and dl: "(d, l') \<in> set upperLowerPairs"
    using c d by (simp_all add: map_of_pairs_Some)
  have "(c, d) \<notin> set upperLowerPairs"
    using dl pairs_disjoint by (force intro: rev_image_eqI)
  moreover have "(d, c) \<notin> set upperLowerPairs"
    using cl pairs_disjoint by (force intro: rev_image_eqI)
  moreover have "l = l' \<longleftrightarrow> c = d"
    using cl dl c d pairs_inj by auto
  ultimately show ?thesis
    by (simp add: lower ciEqualChar_def)
qed

lemma map_asciiLower_eq_iff:
  "map asciiLowerChar xs = map asciiLowerChar ys \<longleftrightarrow> list_all2 ciEqualChar xs ys"
proof (induction xs arbitrary: ys)
  case Nil
  then show ?case by auto
next
  case (Cons x xs)
  then show ?case by (cases ys) (auto simp: asciiLowerChar_eq_iff)
qed

lemma sublist_map_iff:
  "sublist (map f t) (map f l) \<longleftrightarrow> (\<exists>seg. sublist seg l \<and> map f seg = map f t)"
proof
  assume "sublist (map f t) (map f l)"
  then obtain ps ss where "map f l = ps @ map f t @ ss"
    by (auto simp: sublist_def)
  then obtain l1 l2 l3 where "l = l1 @ l2 @ l3" "map f l2 = map f t"
    by (metis map_eq_append_conv)
  then show "\<exists>seg. sublist seg l \<and> map f seg = map f t"
    by (auto simp: sublist_def)
next
  assume "\<exists>seg. sublist seg l \<and> map f seg = map f t"
  then obtain seg ps ss where "l = ps @ seg @ ss" "map f seg = map f t"
    by (auto simp: sublist_def)
  then have "map f l = map f ps @ map f t @ map f ss"
    by simp
  then show "sublist (map f t) (map f l)"
    unfolding sublist_def by blast
qed

lemma sublist_asciiLower_iff_ciSubstring:
  "sublist (map asciiLowerChar t) (map asciiLowerChar l) \<longleftrightarrow> ciSubstring t l"
  by (simp add: sublist_map_iff map_asciiLower_eq_iff ciSubstring_def)

text \<open>
  On ASCII text the code decides visibility as the specification states it: if \<^verbatim>\<open>toLowerCase\<close>
  lower-cases ASCII strings, as the built-in does, and the term and the labels of the
  node's subtree are ASCII, the node is visible exactly when the term is empty or is a
  case-insensitive substring of the node's label or of a descendant's label.
\<close>

lemma isVisible_ascii_case_insensitive:
  assumes lc: "lowersAscii toLowerCase"
    and t: "isAscii (searchTerm p)"
    and ls: "\<forall>d\<in>set (subtree (node p)). isAscii (label d)"
  shows "isVisible toLowerCase p \<longleftrightarrow>
           searchTerm p = []
           \<or> ciSubstring (searchTerm p) (label (node p))
           \<or> (\<exists>d\<in>set (descendants (node p)). ciSubstring (searchTerm p) (label d))"
proof -
  have lt: "toLowerCase (searchTerm p) = map asciiLowerChar (searchTerm p)"
    using lc t by (simp add: lowersAscii_def)
  have self: "node p \<in> set (subtree (node p))"
    by (cases "node p") simp
  have desc: "set (descendants (node p)) \<subseteq> set (subtree (node p))"
    by (cases "node p") (auto simp: descendants_def)
  have ll: "\<And>d. d \<in> set (subtree (node p))
              \<Longrightarrow> toLowerCase (label d) = map asciiLowerChar (label d)"
    using lc ls by (simp add: lowersAscii_def)
  have a: "sublist (toLowerCase (searchTerm p)) (toLowerCase (label (node p)))
           \<longleftrightarrow> ciSubstring (searchTerm p) (label (node p))"
    by (simp add: lt ll [OF self] sublist_asciiLower_iff_ciSubstring)
  have b: "\<And>d. d \<in> set (descendants (node p)) \<Longrightarrow>
             sublist (toLowerCase (searchTerm p)) (toLowerCase (label d))
             \<longleftrightarrow> ciSubstring (searchTerm p) (label d)"
    using desc by (simp add: lt ll subset_iff sublist_asciiLower_iff_ciSubstring)
  show ?thesis
    unfolding isVisible_iff_lowered_contains [of toLowerCase p] a using b by blast
qed

lemma exampleLower_sigma:
  "exampleLower sigmaLabel = [CHR 0x61, CHR 0xCF, CHR 0x83, CHR 0x62]"
  "exampleLower sigmaTerm = [CHR 0x61, CHR 0xCF, CHR 0x82]"
  by (simp_all add: exampleLower_def sigmaLabel_def sigmaTerm_def)

lemma exampleLower_ascii: "isAscii s \<Longrightarrow> exampleLower s = map asciiLowerChar s"
  by (auto simp: exampleLower_def isAscii_def sigmaLabel_def sigmaTerm_def)

lemma lowersAscii_exampleLower: "lowersAscii exampleLower"
  by (simp add: lowersAscii_def exampleLower_ascii)

text \<open>
  The example of the specification: with the term \<open>b\<close> and the tree \<open>A(B, C)\<close>,
  \<open>A\<close> is visible through its child although its own label does not match, and
  \<open>C\<close> is not visible.
\<close>

lemma isVisible_specification_example:
  "isVisible exampleLower (rootProps MNull False ''b'' abc)
   \<and> isVisible exampleLower (childProps_001 (rootProps MNull False ''b'' abc)
                               (Node (Str ''b'') ''B'' [] None))
   \<and> \<not> isVisible exampleLower (childProps_001 (rootProps MNull False ''b'' abc)
                                 (Node (Str ''c'') ''C'' [] None))"
  by (simp add: isVisible_def rootProps_def childProps_001_def abc_def hasChildren_def
      exampleLower_def sigmaLabel_def sigmaTerm_def asciiLowerChar_def upperLowerPairs_def)

text \<open>
  C7. Beyond ASCII the code does not decide visibility as stated. The root option with
  the label \<open>A\<Sigma>B\<close> and no children, under the search term \<open>A\<Sigma>\<close>: the term is
  not empty and is a prefix of the label, letter for letter, so it is a case-insensitive
  substring of it. \<^verbatim>\<open>toLowerCase\<close> makes \<open>a\<varsigma>\<close> of the term, with a final
  sigma, and \<open>a\<sigma>b\<close> of the label, so that \<^verbatim>\<open>includes\<close> fails and the node
  is not visible.
\<close>

theorem isVisible_final_sigma:
  "searchTerm (rootProps MNull False sigmaTerm sigmaNode) = sigmaTerm
   \<and> label (node (rootProps MNull False sigmaTerm sigmaNode)) = sigmaLabel
   \<and> sigmaTerm \<noteq> []
   \<and> prefix sigmaTerm sigmaLabel
   \<and> exampleLower sigmaTerm = [CHR 0x61, CHR 0xCF, CHR 0x82]
   \<and> exampleLower sigmaLabel = [CHR 0x61, CHR 0xCF, CHR 0x83, CHR 0x62]
   \<and> \<not> isVisible exampleLower (rootProps MNull False sigmaTerm sigmaNode)"
proof -
  have "sigmaLabel = sigmaTerm @ ''B''"
    by (simp add: sigmaLabel_def sigmaTerm_def)
  then have p: "prefix sigmaTerm sigmaLabel"
    by (rule prefixI)
  have v: "\<not> isVisible exampleLower (rootProps MNull False sigmaTerm sigmaNode)"
    by (simp add: isVisible_def rootProps_def sigmaNode_def exampleLower_sigma
        hasChildren_def)
       (simp add: sigmaTerm_def)
  show ?thesis
    using p v
    by (simp add: rootProps_def sigmaNode_def exampleLower_sigma) (simp add: sigmaTerm_def)
qed

text \<open>
  So the node is hidden although the term is a case-insensitive substring of its label.
\<close>

theorem isVisible_final_sigma_witness:
  "ciSubstring (searchTerm (rootProps MNull False sigmaTerm sigmaNode))
     (label (node (rootProps MNull False sigmaTerm sigmaNode)))
   \<and> \<not> isVisible exampleLower (rootProps MNull False sigmaTerm sigmaNode)"
proof -
  note t = isVisible_final_sigma
  have "sublist sigmaTerm sigmaLabel"
    using t by (simp add: prefix_imp_sublist)
  then have "ciSubstring sigmaTerm sigmaLabel"
    by (rule ciSubstring_of_sublist)
  then show ?thesis
    using t by simp
qed

section \<open>A value that is not an array, in multiple mode\<close>

text \<open>
  The root option \<open>Fruit\<close> (id 1) in multiple mode with the single id 1 as value: the
  node is reported checked, which it is not for the empty array.
\<close>

theorem scalar_value_checks_node_in_multiple_mode:
  "\<not> isArray (Scalar (Num 1))
   \<and> currentMode_001 (rootProps (Scalar (Num 1)) True [] fruit) = ''multiple''
   \<and> isChecked_001 (rootProps (Scalar (Num 1)) True [] fruit)
   \<and> \<not> isChecked_001 (rootProps (Arr []) True [] fruit)"
  by (simp add: isArray_def currentMode_001_def isChecked_001_def rootProps_def fruit_def)

text \<open>
  C8 (amended). For a value that is not an array, \<^verbatim>\<open>part_001\<close> and both
  controllers compute in multiple mode what they compute for the empty array: the
  indeterminate status (false), \<^verbatim>\<open>hasSelection\<close> (false), and the value emitted
  on an \<^verbatim>\<open>update\<close> or a \<^verbatim>\<open>select\<close> event. The checked status is not
  coerced: a node is checked exactly when the value is one id, strictly equal to the
  node's id. None of these computations has a failing path.
\<close>

theorem non_array_value_in_multiple_mode:
  assumes "\<not> isArray mv"
  shows "isIndeterminate_001 (p\<lparr>modelValue := mv\<rparr>)
           = isIndeterminate_001 (p\<lparr>modelValue := Arr []\<rparr>)
      \<and> \<not> isIndeterminate_001 (p\<lparr>modelValue := mv\<rparr>)
      \<and> handleNodeUpdate_vue opts True mv d = handleNodeUpdate_vue opts True (Arr []) d
      \<and> handleNodeUpdate_002 True mv d = handleNodeUpdate_002 True (Arr []) d
      \<and> handleNodeSelect_vue opts True mv s = handleNodeSelect_vue opts True (Arr []) s
      \<and> handleNodeSelect_002 True mv s = handleNodeSelect_002 True (Arr []) s
      \<and> hasSelection True mv = hasSelection True (Arr [])
      \<and> isChecked_001 (p\<lparr>modelValue := mv\<rparr>) = (mv = Scalar (nid (node p)))"
  using assms
  by (cases mv) (simp_all add: isArray_def isIndeterminate_001_def isChecked_001_def
      handleNodeUpdate_vue_def handleNodeUpdate_002_def handleNodeSelect_vue_def
      handleNodeSelect_002_def hasSelection_def currentSelectionOf_def)

theorem non_array_value_in_multiple_mode_witness:
  "\<not> isArray (Scalar (Num 1))
   \<and> \<not> isIndeterminate_001 ((rootProps MNull True [] fruit)\<lparr>modelValue := Scalar (Num 1)\<rparr>)
   \<and> handleNodeUpdate_002 True (Scalar (Num 1)) \<lparr>add = [Num 2], remove = []\<rparr>
       = handleNodeUpdate_002 True (Arr []) \<lparr>add = [Num 2], remove = []\<rparr>
   \<and> \<not> hasSelection True (Scalar (Num 1))
   \<and> isChecked_001 ((rootProps MNull True [] fruit)\<lparr>modelValue := Scalar (Num 1)\<rparr>)"
proof -
  have h: "\<not> isArray (Scalar (Num 1))"
    by (simp add: isArray_def)
  note t = non_array_value_in_multiple_mode
      [OF h, of "rootProps MNull True [] fruit" "[fruit]" "\<lparr>add = [Num 2], remove = []\<rparr>"
        "\<lparr>pid = None, ids = [], isSelected = True\<rparr>"]
  have i: "\<not> isIndeterminate_001
               ((rootProps MNull True [] fruit)\<lparr>modelValue := Scalar (Num 1)\<rparr>)"
    using t by blast
  have u: "handleNodeUpdate_002 True (Scalar (Num 1)) \<lparr>add = [Num 2], remove = []\<rparr>
       = handleNodeUpdate_002 True (Arr []) \<lparr>add = [Num 2], remove = []\<rparr>"
    using t by blast
  have s: "hasSelection True (Scalar (Num 1)) = hasSelection True (Arr [])"
    using t by blast
  have c: "isChecked_001 ((rootProps MNull True [] fruit)\<lparr>modelValue := Scalar (Num 1)\<rparr>)
           = (Scalar (Num 1) = Scalar (nid (node (rootProps MNull True [] fruit))))"
    using t by blast
  have n: "nid (node (rootProps MNull True [] fruit)) = Num 1"
    by (simp add: rootProps_def fruit_def)
  show ?thesis
    using h i u s c by (simp add: n hasSelection_def)
qed

section \<open>Labels of ids that are not in the option tree\<close>

lemma setProp_None: "flat k = None \<Longrightarrow> k \<noteq> k' \<Longrightarrow> setProp flat k' v k = None"
  by (simp add: setProp_def)

lemma fold_recurse_None_aux:
  assumes "\<And>c flat. c \<in> set cs \<Longrightarrow> flat k = None \<Longrightarrow> k \<notin> keyOf ` nid ` set (subtree c)
             \<Longrightarrow> recurse c flat k = None"
    and "flat k = None"
    and "k \<notin> keyOf ` nid ` set (concat (map subtree cs))"
  shows "fold recurse cs flat k = None"
  using assms
proof (induction cs arbitrary: flat)
  case Nil
  then show ?case by simp
next
  case (Cons c cs)
  have "recurse c flat k = None"
    using Cons.prems by (intro Cons.prems(1)) auto
  moreover have "k \<notin> keyOf ` nid ` set (concat (map subtree cs))"
    using Cons.prems(3) by auto
  ultimately have "fold recurse cs (recurse c flat) k = None"
    using Cons.prems(1) by (intro Cons.IH) auto
  then show ?case by simp
qed

lemma recurse_None:
  "flat k = None \<Longrightarrow> k \<notin> keyOf ` nid ` set (subtree n) \<Longrightarrow> recurse n flat k = None"
proof (induction n arbitrary: flat)
  case (Node i l cs m)
  have k: "k \<noteq> keyOf i" and rest: "k \<notin> keyOf ` nid ` set (concat (map subtree cs))"
    using Node.prems(2) by auto
  have "fold recurse cs (setProp flat (keyOf i) l) k = None"
  proof (rule fold_recurse_None_aux)
    show "setProp flat (keyOf i) l k = None"
      using Node.prems(1) k by (rule setProp_None)
    show "k \<notin> keyOf ` nid ` set (concat (map subtree cs))" by (rule rest)
  qed (rule Node.IH)
  then show ?case by simp
qed

lemma optionsMap_None:
  "k \<notin> keyOf ` treeIds opts \<Longrightarrow> optionsMap opts k = None"
  unfolding optionsMap_def treeIds_def
  by (rule fold_recurse_None_aux) (simp_all add: recurse_None)

lemma getProp_miss:
  "k \<notin> keyOf ` treeIds opts \<Longrightarrow> k \<notin> set objectPrototypeKeys
   \<Longrightarrow> getProp (optionsMap opts) k = JUndefined"
  by (simp add: getProp_def optionsMap_None)

lemma filter_truthy_drop:
  "\<not> truthy (g i) \<Longrightarrow>
   filter truthy (map g (filter (\<lambda>x. x \<noteq> i) xs)) = filter truthy (map g xs)"
  by (induction xs) auto

lemma filter_truthy_all_miss:
  "\<not> truthy (g i) \<Longrightarrow> filter (\<lambda>x. x \<noteq> i) xs = [] \<Longrightarrow> filter truthy (map g xs) = []"
  by (induction xs) (auto split: if_splits)

text \<open>
  With the tree \<open>Fruit(Apple, Banana)\<close> and ids 1, 2, 3: in \<^verbatim>\<open>part_002\<close> the
  multiple-mode label counts the id 9, which is not in the tree, rather than omitting it;
  and in single mode the string id \<open>"1"\<close>, which no node has, is resolved to the
  label of the node whose id is the number 1, because both are the property key
  \<open>"1"\<close> of \<^verbatim>\<open>optionsMap\<close>.
\<close>

theorem label_of_absent_id_not_omitted:
  "Num 9 \<notin> treeIds [fruit]
   \<and> selectedLabel_002 [fruit] True (Arr [Num 1, Num 9]) = JString ''2 items selected''
   \<and> selectedLabel_002 [fruit] True (Arr [Num 1]) = JString ''1 item selected''
   \<and> Str ''1'' \<notin> treeIds [fruit]
   \<and> selectedLabel_vue (\<lambda>k. k) [fruit] False (Scalar (Str ''1'')) = JString ''Fruit''
   \<and> selectedLabel_002 [fruit] False (Scalar (Str ''1'')) = JString ''Fruit''"
  by (simp add: treeIds_def fruit_def selectedLabel_002_def selectedLabel_vue_def
      hasSelection_def countSummary_def propertyKey_def keyOf_def numberToString_def
      optionsMap_def setProp_def getProp_def truthy_def)

text \<open>
  C9 (amended). Let an id of the SelectionValue have a property key that is the key of no
  id of the option tree and the name of no member of \<^verbatim>\<open>Object.prototype\<close>. In
  single mode both controllers resolve it to the empty string. In multiple mode
  \<^verbatim>\<open>TreeSelect.vue\<close> omits it from the joined labels, and \<^verbatim>\<open>part_002\<close>
  shows the number of selected ids, in which it is counted. No path of
  \<^verbatim>\<open>selectedLabel\<close> fails.
\<close>

theorem label_of_absent_key:
  assumes "keyOf i \<notin> keyOf ` treeIds opts" and "keyOf i \<notin> set objectPrototypeKeys"
  shows "selectedLabel_vue nativeText opts False (Scalar i) = JString []
       \<and> selectedLabel_002 opts False (Scalar i) = JString []
       \<and> selectedLabel_vue nativeText opts True (Arr xs)
           = selectedLabel_vue nativeText opts True (Arr (filter (\<lambda>x. x \<noteq> i) xs))
       \<and> selectedLabel_002 opts True (Arr xs)
           = JString (if xs = [] then [] else countSummary (length xs))"
proof -
  have miss: "getProp (optionsMap opts) (keyOf i) = JUndefined"
    using assms by (rule getProp_miss)
  then have nt: "\<not> truthy (getProp (optionsMap opts) (keyOf i))"
    by (simp add: truthy_def)
  have single_vue: "selectedLabel_vue nativeText opts False (Scalar i) = JString []"
    by (simp add: selectedLabel_vue_def hasSelection_def propertyKey_def miss truthy_def)
  have single_002: "selectedLabel_002 opts False (Scalar i) = JString []"
    by (simp add: selectedLabel_002_def hasSelection_def propertyKey_def miss truthy_def)
  have multi_vue: "selectedLabel_vue nativeText opts True (Arr xs)
           = selectedLabel_vue nativeText opts True (Arr (filter (\<lambda>x. x \<noteq> i) xs))"
  proof (cases "filter (\<lambda>x. x \<noteq> i) xs = []")
    case True
    then show ?thesis
      using filter_truthy_all_miss
        [where g = "\<lambda>i. getProp (optionsMap opts) (keyOf i)" and i = i and xs = xs,
          OF nt True]
      by (simp add: selectedLabel_vue_def hasSelection_def)
  next
    case False
    then have "xs \<noteq> []" by auto
    with False show ?thesis
      using filter_truthy_drop
        [where g = "\<lambda>i. getProp (optionsMap opts) (keyOf i)" and i = i and xs = xs, OF nt]
      by (simp add: selectedLabel_vue_def hasSelection_def)
  qed
  have multi_002: "selectedLabel_002 opts True (Arr xs)
           = JString (if xs = [] then [] else countSummary (length xs))"
    by (simp add: selectedLabel_002_def hasSelection_def)
  show ?thesis
    using single_vue single_002 multi_vue multi_002 by simp
qed

theorem label_of_absent_key_witness:
  "keyOf (Num 9) \<notin> keyOf ` treeIds [fruit]
   \<and> keyOf (Num 9) \<notin> set objectPrototypeKeys
   \<and> selectedLabel_vue (\<lambda>k. k) [fruit] False (Scalar (Num 9)) = JString []
   \<and> selectedLabel_002 [fruit] False (Scalar (Num 9)) = JString []
   \<and> selectedLabel_vue (\<lambda>k. k) [fruit] True (Arr [Num 2, Num 9, Num 3])
       = selectedLabel_vue (\<lambda>k. k) [fruit] True (Arr [Num 2, Num 3])
   \<and> selectedLabel_002 [fruit] True (Arr [Num 2, Num 9, Num 3]) = JString ''3 items selected''"
proof -
  have k: "keyOf (Num 9) \<notin> keyOf ` treeIds [fruit]"
    by (simp add: treeIds_def fruit_def keyOf_def numberToString_def)
  have o: "keyOf (Num 9) \<notin> set objectPrototypeKeys"
    by (simp add: objectPrototypeKeys_def keyOf_def numberToString_def)
  show ?thesis
    using label_of_absent_key [OF k o, of "\<lambda>k. k" "[Num 2, Num 9, Num 3]"] k o
    by (simp add: countSummary_def)
qed

end
